theory Spec2Isabelle
  imports Main "HOL-Library.Word"
begin

unbundle bit_operations_syntax

section \<open>The Replay Manager of job/replay\_manager.go\<close>

text \<open>
  A shallow embedding of package \<open>job\<close>'s replay manager: the conflict validator
  (\<open>validate\<close>, \<open>validateReplayJobsConflict\<close>, \<open>checkAnyConflictedDags\<close>,
  \<open>checkAnyConflictedRuns\<close>), the admission path \<open>Manager.Replay\<close> and the worker
  pool's construction (\<open>Init\<close>, \<open>NewManager\<close>).  Mutation is explicit state passing;
  every error return and the one panic of the admission path are values.
\<close>

subsection \<open>Data\<close>

text \<open>\<open>uuid.UUID\<close> is a 16-byte array; its zero value \<open>uuid.Nil\<close> is the unset id.\<close>

type_synonym uuid = "128 word"

definition uuid_Nil :: uuid where
  "uuid_Nil = 0"

text \<open>
  \<open>time.Time\<close> is a struct of three fields: \<open>wall uint64\<close> and \<open>ext int64\<close>, which
  encode the instant, and \<open>loc *Location\<close>, a pointer (here its address, 0 for
  \<open>nil\<close>, which stands for UTC).  Go's \<open>==\<close> on two such values, the comparison of
  line 158, compares the three fields; it is the equality of this record.  So the same
  instant held with two Locations is two values that are not \<open>==\<close>.
\<close>

record Time =
  wall :: "64 word"
  ext :: "64 word"
  loc :: nat

text \<open>
  Modelled from the spec: the status constants of package \<open>models\<close>
  (\<open>ReplayStatusAccepted\<close>, \<open>ReplayStatusInProgress\<close>, ...), whose string values are
  not under src/; the spec gives status \<open>\<in> {Accepted, InProgress, Success, Failed}\<close>.
\<close>

datatype ReplayStatus = ReplayStatusAccepted | ReplayStatusInProgress
  | ReplayStatusSuccess | ReplayStatusFailed

text \<open>
  The error values of the source: the package's \<open>ErrRequestQueueFull\<close>, the store's
  \<open>ErrResourceNotFound\<close> (compared by identity at line 114), the conflict error
  \<open>errors.New("conflict msg")\<close> of line 159, and any other error a collaborator
  returns.
\<close>

datatype error = ErrRequestQueueFull | ErrResourceNotFound | ConflictMsg | Err string

text \<open>\<open>models.JobSpec\<close> and \<open>models.ProjectSpec\<close>: the code reads only the job's name.\<close>

record JobSpec =
  Name :: string

record ProjectSpec =
  ProjectName :: string

text \<open>\<open>models.ReplayWorkerRequest\<close>: the request, mutated through its pointer by \<open>Replay\<close>.\<close>

record ReplayWorkerRequest =
  ID :: uuid
  Job :: JobSpec
  Start :: Time
  End :: Time
  Project :: ProjectSpec
  JobSpecMap :: "string \<rightharpoonup> JobSpec"

text \<open>\<open>models.ReplaySpec\<close>: the persisted record.\<close>

record ReplaySpec =
  spec_ID :: uuid
  spec_Job :: JobSpec
  StartDate :: Time
  EndDate :: Time
  Status :: ReplayStatus

text \<open>
  \<open>tree.TreeNode\<close>, as far as the validator reads it: \<open>Data\<close> (whose \<open>GetName()\<close> is
  the job's name) and \<open>Runs\<close>, given as the slice that \<open>Runs.Values()\<close> returns.
\<close>

record TreeNode =
  Data :: JobSpec
  Runs :: "Time list"

definition GetName :: "JobSpec \<Rightarrow> string" where
  "GetName j = Name j"

text \<open>
  The tree package, which is not under src/, is a parameter: \<open>prepareTree\<close> builds the
  tree of a request or fails, \<open>GetAllNodes\<close> lists a tree's nodes.
\<close>

record 't TreeBuilder =
  prepareTree :: "ReplayWorkerRequest \<Rightarrow> error + 't"
  GetAllNodes :: "'t \<Rightarrow> TreeNode list"

text \<open>
  \<open>store.ReplaySpecRepository\<close>, an interface whose implementations are not under
  src/, is a parameter over the state \<open>'s\<close> of the durable store: \<open>Insert\<close> returns its
  error (or none) and the store it leaves, \<open>GetByStatus\<close> reads.
\<close>

record 's ReplaySpecRepository =
  Insert :: "'s \<Rightarrow> ReplaySpec \<Rightarrow> error option \<times> 's"
  GetByStatus :: "'s \<Rightarrow> ReplayStatus list \<Rightarrow> error + ReplaySpec list"

text \<open>
  \<open>utils.UUIDProvider\<close>: a stateful source of ids, as the sequence of the outcomes of its
  successive \<open>NewUUID()\<close> calls and the number of calls made so far.
\<close>

record UUIDProvider =
  outcomes :: "nat \<Rightarrow> error + uuid"
  calls :: nat

definition NewUUID :: "UUIDProvider \<Rightarrow> (error + uuid) \<times> UUIDProvider" where
  "NewUUID p = (outcomes p (calls p), p\<lparr>calls := calls p + 1\<rparr>)"

text \<open>
  The request queue, \<open>make(chan *models.ReplayWorkerRequest, 0)\<close>: an unbuffered
  channel.  Its state at an instant is the number of goroutines blocked receiving on it,
  whether it was closed, and the requests handed over so far.
\<close>

record chan =
  receivers :: nat
  closed :: bool
  delivered :: "ReplayWorkerRequest list"

text \<open>
  One non-blocking send, the \<open>select\<close> with a \<open>default\<close> of lines 88 to 98: on a closed
  channel the send panics; otherwise it proceeds iff a receiver is waiting.
\<close>

datatype send_result = Sent chan | WouldBlock | SendOnClosedChannel

definition trySend :: "chan \<Rightarrow> ReplayWorkerRequest \<Rightarrow> send_result" where
  "trySend q v =
     (if closed q then SendOnClosedChannel
      else if 0 < receivers q
        then Sent (q\<lparr>receivers := receivers q - 1, delivered := delivered q @ [v]\<rparr>)
      else WouldBlock)"

record ReplayManagerConfig =
  NumWorkers :: int

text \<open>
  \<open>Manager\<close>.  \<open>wg\<close> is the wait group's counter and \<open>workers\<close> the number of
  \<open>spawnServiceWorker\<close> goroutines started; the mutex is not modelled (calls are
  sequential here).
\<close>

record 's Manager =
  wg :: nat
  workers :: nat
  uuidProvider :: UUIDProvider
  config :: ReplayManagerConfig
  requestQ :: chan
  requestMap :: "uuid \<rightharpoonup> bool"
  replayWorker :: "ReplayWorkerRequest \<Rightarrow> error option"
  replaySpecRepoFac :: "JobSpec \<Rightarrow> 's ReplaySpecRepository"

subsection \<open>The conflict validator\<close>

text \<open>
  Lines 155 to 164: an error iff some run of the active node is \<open>==\<close> to one of the
  requested node.  The runs are the \<open>time.Time\<close> values that the tree builder put in the
  sets.
\<close>

fun runs_inner :: "Time \<Rightarrow> Time list \<Rightarrow> error option" where
  "runs_inner activeNodeRun [] = None"
| "runs_inner activeNodeRun (reqNodeRun # rest) =
     (if activeNodeRun = reqNodeRun then Some ConflictMsg else runs_inner activeNodeRun rest)"

fun runs_outer :: "Time list \<Rightarrow> Time list \<Rightarrow> error option" where
  "runs_outer [] reqRuns = None"
| "runs_outer (activeNodeRun # rest) reqRuns =
     (case runs_inner activeNodeRun reqRuns of
        Some e \<Rightarrow> Some e
      | None \<Rightarrow> runs_outer rest reqRuns)"

definition checkAnyConflictedRuns :: "TreeNode \<Rightarrow> TreeNode \<Rightarrow> error option" where
  "checkAnyConflictedRuns activeNode reqNode = runs_outer (Runs activeNode) (Runs reqNode)"

text \<open>
  Lines 144 to 153: the first pair of equal names, in iteration order, decides; the
  function returns what \<open>checkAnyConflictedRuns\<close> says of that pair.
\<close>

fun dags_inner :: "TreeNode \<Rightarrow> TreeNode list \<Rightarrow> error option option" where
  "dags_inner activeNode [] = None"
| "dags_inner activeNode (reqNode # rest) =
     (if GetName (Data activeNode) = GetName (Data reqNode)
      then Some (checkAnyConflictedRuns activeNode reqNode)
      else dags_inner activeNode rest)"

fun checkAnyConflictedDags :: "TreeNode list \<Rightarrow> TreeNode list \<Rightarrow> error option" where
  "checkAnyConflictedDags [] reqReplayNodes = None"
| "checkAnyConflictedDags (activeNode # rest) reqReplayNodes =
     (case dags_inner activeNode reqReplayNodes of
        Some r \<Rightarrow> r
      | None \<Rightarrow> checkAnyConflictedDags rest reqReplayNodes)"

text \<open>The request literal of lines 125 to 132.\<close>

definition activeReplayWorkerRequest :: "ReplaySpec \<Rightarrow> ReplayWorkerRequest \<Rightarrow> ReplayWorkerRequest" where
  "activeReplayWorkerRequest activeSpec reqInput =
     \<lparr>ID = spec_ID activeSpec, Job = spec_Job activeSpec, Start = StartDate activeSpec,
      End = EndDate activeSpec, Project = Project reqInput, JobSpecMap = JobSpecMap reqInput\<rparr>"

text \<open>
  Lines 122 to 142: the body of the loop returns in its first iteration, so only the
  first active record is looked at.
\<close>

fun validateReplayJobsConflict ::
  "'t TreeBuilder \<Rightarrow> ReplaySpec list \<Rightarrow> ReplayWorkerRequest \<Rightarrow> TreeNode list \<Rightarrow> error option" where
  "validateReplayJobsConflict T [] reqInput reqReplayNodes = None"
| "validateReplayJobsConflict T (activeSpec # rest) reqInput reqReplayNodes =
     (case prepareTree T (activeReplayWorkerRequest activeSpec reqInput) of
        Inl err \<Rightarrow> Some err
      | Inr activeTree \<Rightarrow> checkAnyConflictedDags (GetAllNodes T activeTree) reqReplayNodes)"

text \<open>Lines 101 to 120.\<close>

definition statusToValidate :: "ReplayStatus list" where
  "statusToValidate = [ReplayStatusInProgress, ReplayStatusAccepted]"

definition validate ::
  "'t TreeBuilder \<Rightarrow> 's ReplaySpecRepository \<Rightarrow> 's \<Rightarrow> ReplayWorkerRequest \<Rightarrow> error option" where
  "validate T replaySpecRepo db reqInput =
     (case prepareTree T reqInput of
        Inl err \<Rightarrow> Some err
      | Inr reqReplayTree \<Rightarrow>
          (case GetByStatus replaySpecRepo db statusToValidate of
             Inl err \<Rightarrow> (if err = ErrResourceNotFound then None else Some err)
           | Inr activeReplaySpecs \<Rightarrow>
               validateReplayJobsConflict T activeReplaySpecs reqInput
                 (GetAllNodes T reqReplayTree)))"

subsection \<open>Admission: \<open>Manager.Replay\<close>\<close>

text \<open>
  \<open>uuid.UUID.String()\<close> of github.com/google/uuid: the sixteen bytes in lower-case
  hexadecimal, grouped 8-4-4-4-12.
\<close>

definition hexdigit :: "nat \<Rightarrow> char" where
  "hexdigit n = ''0123456789abcdef'' ! (n mod 16)"

definition hex_byte :: "nat \<Rightarrow> string" where
  "hex_byte b = [hexdigit (b div 16), hexdigit b]"

definition uuid_bytes :: "uuid \<Rightarrow> nat list" where
  "uuid_bytes u = map (\<lambda>i. (unat u div 256 ^ (15 - i)) mod 256) [0..<16]"

definition uuid_String :: "uuid \<Rightarrow> string" where
  "uuid_String u =
     (let h = map hex_byte (uuid_bytes u) in
      concat (take 4 h) @ ''-'' @ concat (take 2 (drop 4 h)) @ ''-'' @
      concat (take 2 (drop 6 h)) @ ''-'' @ concat (take 2 (drop 8 h)) @ ''-'' @
      concat (drop 10 h))"

text \<open>A call either returns its results or panics.\<close>

datatype 'a outcome = Returns 'a | Panics

text \<open>
  Lines 59 to 99.  The Go results \<open>(string, error)\<close> are \<open>Inr id\<close> for \<open>(id, nil)\<close> and
  \<open>Inl err\<close> for \<open>("", err)\<close>.  The call returns, with its outcome, the manager, the
  store and the request as it leaves them.
\<close>

definition Replay ::
  "'t TreeBuilder \<Rightarrow> 's Manager \<Rightarrow> 's \<Rightarrow> ReplayWorkerRequest \<Rightarrow>
     (error + string) outcome \<times> 's Manager \<times> 's \<times> ReplayWorkerRequest" where
  "Replay T m db reqInput =
     (let replaySpecRepo = replaySpecRepoFac m (Job reqInput) in
      case validate T replaySpecRepo db reqInput of
        Some err \<Rightarrow> (Returns (Inl err), m, db, reqInput)
      | None \<Rightarrow>
          (case NewUUID (uuidProvider m) of
             (Inl err, p) \<Rightarrow> (Returns (Inl err), m\<lparr>uuidProvider := p\<rparr>, db, reqInput)
           | (Inr uuidOb, p) \<Rightarrow>
               (let m1 = m\<lparr>uuidProvider := p\<rparr>;
                    reqInput1 = reqInput\<lparr>ID := uuidOb\<rparr>;
                    replay = \<lparr>spec_ID = uuidOb, spec_Job = Job reqInput1,
                               StartDate = Start reqInput1, EndDate = End reqInput1,
                               Status = ReplayStatusAccepted\<rparr>
                in case Insert replaySpecRepo db replay of
                     (Some err, db1) \<Rightarrow> (Returns (Inl err), m1, db1, reqInput1)
                   | (None, db1) \<Rightarrow>
                       (case trySend (requestQ m1) reqInput1 of
                          Sent q \<Rightarrow>
                            (Returns (Inr (uuid_String (ID reqInput1))),
                             m1\<lparr>requestQ := q,
                                requestMap := (requestMap m1)(ID reqInput1 \<mapsto> True)\<rparr>,
                             db1, reqInput1)
                        | WouldBlock \<Rightarrow> (Returns (Inl ErrRequestQueueFull), m1, db1, reqInput1)
                        | SendOnClosedChannel \<Rightarrow> (Panics, m1, db1, reqInput1)))))"

subsection \<open>The worker pool: \<open>Init\<close>, \<open>NewManager\<close>, \<open>Close\<close>\<close>

text \<open>One iteration of the loop of \<open>Init\<close>: \<open>m.wg.Add(1)\<close> and \<open>go m.spawnServiceWorker()\<close>.\<close>

definition spawn :: "'s Manager \<Rightarrow> 's Manager" where
  "spawn m = m\<lparr>wg := wg m + 1, workers := workers m + 1\<rparr>"

function Init_loop :: "int \<Rightarrow> 's Manager \<Rightarrow> 's Manager" where
  "Init_loop i m = (if i < NumWorkers (config m) then Init_loop (i + 1) (spawn m) else m)"
  by pat_completeness auto
termination
  by (relation "measure (\<lambda>(i, m). nat (NumWorkers (config m) - i))") (auto simp: spawn_def)

declare Init_loop.simps [simp del]

definition Init :: "'s Manager \<Rightarrow> 's Manager" where
  "Init m = Init_loop 0 m"

definition NewManager ::
  "(ReplayWorkerRequest \<Rightarrow> error option) \<Rightarrow> (JobSpec \<Rightarrow> 's ReplaySpecRepository) \<Rightarrow>
     UUIDProvider \<Rightarrow> ReplayManagerConfig \<Rightarrow> 's Manager" where
  "NewManager worker replaySpecRepoFac' uuidProvider' config' =
     Init \<lparr>wg = 0, workers = 0, uuidProvider = uuidProvider', config = config',
           requestQ = \<lparr>receivers = 0, closed = False, delivered = []\<rparr>,
           requestMap = Map.empty, replayWorker = worker,
           replaySpecRepoFac = replaySpecRepoFac'\<rparr>"

text \<open>
  Lines 183 to 193, in the state in which \<open>Close\<close> returns: the queue is closed, every
  worker loop has left its \<open>range\<close> and called \<open>wg.Done()\<close>.  Closing a closed channel
  panics.
\<close>

definition Close :: "'s Manager \<Rightarrow> error option outcome \<times> 's Manager" where
  "Close m =
     (if closed (requestQ m) then (Panics, m)
      else (Returns None,
            m\<lparr>requestQ := (requestQ m)\<lparr>closed := True, receivers := 0\<rparr>,
              wg := 0, workers := 0\<rparr>))"

subsection \<open>The validator as the specification words it\<close>

text \<open>
  Section 4.2, steps 3 to 5: there is a conflict iff for some active record, some node
  of its tree and some requested node have the same job name and share a run instance.
\<close>

definition nodes_overlap :: "TreeNode \<Rightarrow> TreeNode \<Rightarrow> bool" where
  "nodes_overlap a r =
     (GetName (Data a) = GetName (Data r) \<and> set (Runs a) \<inter> set (Runs r) \<noteq> {})"

definition spec_conflict ::
  "'t TreeBuilder \<Rightarrow> ReplaySpec list \<Rightarrow> ReplayWorkerRequest \<Rightarrow> TreeNode list \<Rightarrow> bool" where
  "spec_conflict T activeReplaySpecs reqInput reqReplayNodes =
     list_ex (\<lambda>activeSpec.
        case prepareTree T (activeReplayWorkerRequest activeSpec reqInput) of
          Inl err \<Rightarrow> False
        | Inr activeTree \<Rightarrow>
            list_ex (\<lambda>a. list_ex (nodes_overlap a) reqReplayNodes) (GetAllNodes T activeTree))
       activeReplaySpecs"

subsection \<open>Collaborators to run the code on\<close>

text \<open>
  Modelled from the spec: a Record Store (section 6; the repository's implementations
  are not under src/).  \<open>insert\<close> appends the record, \<open>getByStatus\<close> returns the records
  whose status is among those asked for and fails with the "not found" signal when
  there is none; either fails with the fault injected, if any.
\<close>

record MemStore =
  records :: "ReplaySpec list"
  insertFault :: "error option"
  queryFault :: "error option"

definition memRepo :: "MemStore ReplaySpecRepository" where
  "memRepo =
     \<lparr>Insert = (\<lambda>db r. case insertFault db of
                   Some e \<Rightarrow> (Some e, db)
                 | None \<Rightarrow> (None, db\<lparr>records := records db @ [r]\<rparr>)),
      GetByStatus = (\<lambda>db statuses. case queryFault db of
                   Some e \<Rightarrow> Inl e
                 | None \<Rightarrow>
                     (let rs = filter (\<lambda>r. Status r \<in> set statuses) (records db)
                      in if rs = [] then Inl ErrResourceNotFound else Inr rs))\<rparr>"

text \<open>The instant \<open>d\<close> with no monotonic reading, in UTC: \<open>wall\<close> is 0 and \<open>loc\<close> is \<open>nil\<close>.\<close>

definition day :: "int \<Rightarrow> Time" where
  "day d = \<lparr>wall = 0, ext = word_of_int d, loc = 0\<rparr>"

text \<open>
  Modelled from the spec: a Tree Builder (section 3) for jobs without dependents that
  run once a day: the tree of a request is the one node of its job, with one run
  instance for each day from the start date to the end date; a request whose job has no
  name is refused.
\<close>

definition dailyTree :: "(TreeNode list) TreeBuilder" where
  "dailyTree =
     \<lparr>prepareTree = (\<lambda>req. if Name (Job req) = [] then Inl (Err ''no job'')
                       else Inr [\<lparr>Data = Job req,
                                  Runs = map day [sint (ext (Start req))..sint (ext (End req))]\<rparr>]),
      GetAllNodes = (\<lambda>t. t)\<rparr>"

definition idsFrom :: "nat \<Rightarrow> UUIDProvider" where
  "idsFrom n = \<lparr>outcomes = (\<lambda>k. Inr (of_nat (n + k))), calls = 0\<rparr>"

definition noIds :: UUIDProvider where
  "noIds = \<lparr>outcomes = (\<lambda>k. Inl (Err ''no entropy'')), calls = 0\<rparr>"

definition job :: "string \<Rightarrow> JobSpec" where
  "job n = \<lparr>Name = n\<rparr>"

definition request :: "string \<Rightarrow> int \<Rightarrow> int \<Rightarrow> ReplayWorkerRequest" where
  "request n s e =
     \<lparr>ID = uuid_Nil, Job = job n, Start = day s, End = day e,
      Project = \<lparr>ProjectName = ''p''\<rparr>, JobSpecMap = Map.empty\<rparr>"

definition accepted :: "uuid \<Rightarrow> string \<Rightarrow> int \<Rightarrow> int \<Rightarrow> ReplaySpec" where
  "accepted u n s e =
     \<lparr>spec_ID = u, spec_Job = job n, StartDate = day s, EndDate = day e,
      Status = ReplayStatusAccepted\<rparr>"

definition store :: "ReplaySpec list \<Rightarrow> MemStore" where
  "store rs = \<lparr>records = rs, insertFault = None, queryFault = None\<rparr>"

definition manager :: "nat \<Rightarrow> MemStore Manager" where
  "manager idle =
     (let m = NewManager (\<lambda>req. None) (\<lambda>j. memRepo) (idsFrom 7) \<lparr>NumWorkers = 2\<rparr>
      in m\<lparr>requestQ := (requestQ m)\<lparr>receivers := idle\<rparr>\<rparr>)"

section \<open>Properties\<close>

subsection \<open>Instants and their \<open>time.Time\<close> values\<close>

lemma sint_ext_day: "- (2 ^ 63) \<le> d \<Longrightarrow> d < 2 ^ 63 \<Longrightarrow> sint (ext (day d)) = d"
  by (simp add: day_def sint_sbintrunc' signed_take_bit_int_eq_self)

lemma day_eq_iff:
  assumes "- (2 ^ 63) \<le> a" "a < 2 ^ 63" "- (2 ^ 63) \<le> b" "b < 2 ^ 63"
  shows "(day a = day b) = (a = b)"
proof
  assume "day a = day b"
  then have "sint (ext (day a)) = sint (ext (day b))"
    by simp
  with assms show "a = b"
    by (simp add: sint_ext_day)
next
  assume "a = b"
  then show "day a = day b"
    by simp
qed

subsection \<open>Run instances of one pair of nodes\<close>

lemma runs_inner_mem:
  "runs_inner x ys = (if x \<in> set ys then Some ConflictMsg else None)"
  by (induction ys) auto

lemma runs_outer_inter:
  "runs_outer xs ys = (if set xs \<inter> set ys \<noteq> {} then Some ConflictMsg else None)"
  by (induction xs) (auto simp: runs_inner_mem)



text \<open>
  The same instant held with two Locations is two run instances that are not \<open>==\<close>:
  the code reports no conflict for them.
\<close>

lemma same_instant_other_Location_no_conflict:
  assumes "wall a = wall b" and "ext a = ext b" and "loc a \<noteq> loc b"
  shows "checkAnyConflictedRuns \<lparr>Data = j, Runs = [a]\<rparr> \<lparr>Data = j, Runs = [b]\<rparr> = None"
proof -
  from assms(3) have "a \<noteq> b"
    by auto
  then show ?thesis
    by (simp add: checkAnyConflictedRuns_def)
qed

subsection \<open>Trees without a common job name\<close>

lemma dags_inner_no_name:
  "GetName (Data a) \<notin> set (map (\<lambda>n. GetName (Data n)) rs) \<Longrightarrow> dags_inner a rs = None"
  by (induction rs) auto

text \<open>
  Claim C6.  When no node of the active tree has the job name of a node of the requested
  tree, \<open>checkAnyConflictedDags\<close> returns no error, whatever the run instances (and so
  the date ranges) of the nodes are.
\<close>

theorem checkAnyConflictedDags_disjoint_names:
  assumes "set (map (\<lambda>n. GetName (Data n)) activeNodes) \<inter>
           set (map (\<lambda>n. GetName (Data n)) reqReplayNodes) = {}"
  shows "checkAnyConflictedDags activeNodes reqReplayNodes = None"
  using assms
proof (induction activeNodes)
  case Nil
  show ?case by simp
next
  case (Cons a rest)
  from Cons.prems have "GetName (Data a) \<notin> set (map (\<lambda>n. GetName (Data n)) reqReplayNodes)"
    by auto
  then have "dags_inner a reqReplayNodes = None"
    by (rule dags_inner_no_name)
  moreover from Cons.prems have "checkAnyConflictedDags rest reqReplayNodes = None"
    by (intro Cons.IH) auto
  ultimately show ?case by simp
qed

theorem checkAnyConflictedDags_disjoint_names_witness:
  "checkAnyConflictedDags
     [\<lparr>Data = job ''a'', Runs = [day 1, day 2]\<rparr>, \<lparr>Data = job ''b'', Runs = [day 1, day 2]\<rparr>]
     [\<lparr>Data = job ''x'', Runs = [day 1, day 2]\<rparr>, \<lparr>Data = job ''y'', Runs = [day 2]\<rparr>] = None"
  using checkAnyConflictedDags_disjoint_names
    [of "[\<lparr>Data = job ''a'', Runs = [day 1, day 2]\<rparr>, \<lparr>Data = job ''b'', Runs = [day 1, day 2]\<rparr>]"
        "[\<lparr>Data = job ''x'', Runs = [day 1, day 2]\<rparr>, \<lparr>Data = job ''y'', Runs = [day 2]\<rparr>]"]
  by (simp add: GetName_def job_def)

subsection \<open>The store's "not found" signal\<close>

text \<open>
  Claim C7.  When \<open>validate\<close> reaches the query (the tree of the request was built) and
  \<open>GetByStatus\<close>, asked for the statuses InProgress and Accepted, fails, then the
  store's \<open>ErrResourceNotFound\<close> is success (no error) and any other error is returned.
\<close>

theorem validate_not_found_is_success:
  assumes "prepareTree T reqInput = Inr reqReplayTree"
    and "GetByStatus replaySpecRepo db [ReplayStatusInProgress, ReplayStatusAccepted] = Inl err"
  shows "validate T replaySpecRepo db reqInput =
           (if err = ErrResourceNotFound then None else Some err)"
  using assms by (simp add: validate_def statusToValidate_def)

theorem validate_not_found_is_success_witness:
  "validate dailyTree memRepo (store []) (request ''x'' 2 3) = None \<and>
   validate dailyTree memRepo ((store [])\<lparr>queryFault := Some (Err ''down'')\<rparr>) (request ''x'' 2 3)
     = Some (Err ''down'')"
  using validate_not_found_is_success
      [of dailyTree "request ''x'' 2 3" "[\<lparr>Data = job ''x'', Runs = map day [2..3]\<rparr>]"
          memRepo "store []" ErrResourceNotFound]
    validate_not_found_is_success
      [of dailyTree "request ''x'' 2 3" "[\<lparr>Data = job ''x'', Runs = map day [2..3]\<rparr>]"
          memRepo "(store [])\<lparr>queryFault := Some (Err ''down'')\<rparr>" "Err ''down''"]
  by (simp add: dailyTree_def memRepo_def store_def request_def job_def sint_ext_day)

subsection \<open>Workers spawned at construction\<close>

lemma Init_loop_config: "config (Init_loop i m) = config m"
proof (induction i m rule: Init_loop.induct)
  case (1 i m)
  show ?case
  proof (cases "i < NumWorkers (config m)")
    case True
    with 1 show ?thesis
      by (subst Init_loop.simps) (simp add: spawn_def)
  next
    case False
    then show ?thesis
      by (subst Init_loop.simps) simp
  qed
qed

lemma Init_loop_workers:
  "workers (Init_loop i m) = workers m + nat (NumWorkers (config m) - i)"
proof (induction i m rule: Init_loop.induct)
  case (1 i m)
  show ?case
  proof (cases "i < NumWorkers (config m)")
    case True
    then have "workers (Init_loop i m) = workers (Init_loop (i + 1) (spawn m))"
      by (subst Init_loop.simps) simp
    also have "\<dots> = workers (spawn m) + nat (NumWorkers (config (spawn m)) - (i + 1))"
      using 1 True by simp
    also have "\<dots> = workers m + nat (NumWorkers (config m) - i)"
      using True by (simp add: spawn_def)
    finally show ?thesis .
  next
    case False
    then show ?thesis
      by (subst Init_loop.simps) simp
  qed
qed

text \<open>
  Claim C10.  \<open>NewManager\<close> calls \<open>Init\<close> before it returns, so the manager it returns
  has \<open>NumWorkers\<close> worker loops already; one more call of \<open>Init\<close> leaves
  \<open>2 * NumWorkers\<close> of them (for a worker count that is not negative).
\<close>

theorem NewManager_spawns_then_Init_doubles:
  assumes "0 \<le> NumWorkers cfg"
  shows "int (workers (NewManager worker fac up cfg)) = NumWorkers cfg \<and>
         int (workers (Init (NewManager worker fac up cfg))) = 2 * NumWorkers cfg"
  using assms
  by (simp add: NewManager_def Init_def Init_loop_workers Init_loop_config)

theorem NewManager_spawns_then_Init_doubles_witness:
  "int (workers (NewManager (\<lambda>req. None) (\<lambda>j. memRepo) (idsFrom 7) \<lparr>NumWorkers = 2\<rparr>)) = 2 \<and>
   int (workers (Init (NewManager (\<lambda>req. None) (\<lambda>j. memRepo) (idsFrom 7) \<lparr>NumWorkers = 2\<rparr>))) = 4"
  using NewManager_spawns_then_Init_doubles
    [of "\<lparr>NumWorkers = 2\<rparr>" "\<lambda>req. None" "\<lambda>j. memRepo" "idsFrom 7"]
  by simp

subsection \<open>The context of an active record's tree\<close>

text \<open>
  Claim C8.  For the active record it looks at, \<open>validateReplayJobsConflict\<close> builds the
  tree from a request made of the record's id, job, start date and end date and of the
  incoming request's project and \<open>JobSpecMap\<close>; nothing else of the incoming request is
  used, so two incoming requests with the same project and \<open>JobSpecMap\<close> give the same
  verdict.
\<close>

theorem validateReplayJobsConflict_uses_current_context:
  assumes "Project reqInput' = Project reqInput"
    and "JobSpecMap reqInput' = JobSpecMap reqInput"
  shows "validateReplayJobsConflict T (activeSpec # rest) reqInput reqReplayNodes =
           (case prepareTree T
                   \<lparr>ID = spec_ID activeSpec, Job = spec_Job activeSpec,
                    Start = StartDate activeSpec, End = EndDate activeSpec,
                    Project = Project reqInput, JobSpecMap = JobSpecMap reqInput\<rparr> of
              Inl err \<Rightarrow> Some err
            | Inr activeTree \<Rightarrow>
                checkAnyConflictedDags (GetAllNodes T activeTree) reqReplayNodes) \<and>
         validateReplayJobsConflict T activeReplaySpecs reqInput' reqReplayNodes =
           validateReplayJobsConflict T activeReplaySpecs reqInput reqReplayNodes"
proof
  show "validateReplayJobsConflict T (activeSpec # rest) reqInput reqReplayNodes =
           (case prepareTree T
                   \<lparr>ID = spec_ID activeSpec, Job = spec_Job activeSpec,
                    Start = StartDate activeSpec, End = EndDate activeSpec,
                    Project = Project reqInput, JobSpecMap = JobSpecMap reqInput\<rparr> of
              Inl err \<Rightarrow> Some err
            | Inr activeTree \<Rightarrow>
                checkAnyConflictedDags (GetAllNodes T activeTree) reqReplayNodes)"
    by (simp add: activeReplayWorkerRequest_def)
next
  have "activeReplayWorkerRequest a reqInput' = activeReplayWorkerRequest a reqInput" for a
    using assms by (simp add: activeReplayWorkerRequest_def)
  then show "validateReplayJobsConflict T activeReplaySpecs reqInput' reqReplayNodes =
      validateReplayJobsConflict T activeReplaySpecs reqInput reqReplayNodes"
    by (cases activeReplaySpecs) simp_all
qed

theorem validateReplayJobsConflict_uses_current_context_witness:
  "validateReplayJobsConflict dailyTree [accepted 5 ''x'' 2 3] (request ''y'' 8 9)
      [\<lparr>Data = job ''x'', Runs = [day 3]\<rparr>] = Some ConflictMsg \<and>
   validateReplayJobsConflict dailyTree [accepted 5 ''x'' 2 3] (request ''x'' 2 3)
      [\<lparr>Data = job ''x'', Runs = [day 3]\<rparr>] = Some ConflictMsg"
  using validateReplayJobsConflict_uses_current_context
    [of "request ''x'' 2 3" "request ''y'' 8 9" dailyTree "accepted 5 ''x'' 2 3" "[]"
        "[\<lparr>Data = job ''x'', Runs = [day 3]\<rparr>]" "[accepted 5 ''x'' 2 3]"]
  by (simp add: request_def accepted_def dailyTree_def job_def GetName_def
      checkAnyConflictedRuns_def sint_ext_day day_eq_iff)

subsection \<open>Running \<open>Replay\<close> on concrete managers\<close>

lemma Init_loop_fields:
  "replaySpecRepoFac (Init_loop i m) = replaySpecRepoFac m \<and>
   uuidProvider (Init_loop i m) = uuidProvider m \<and>
   requestQ (Init_loop i m) = requestQ m \<and>
   requestMap (Init_loop i m) = requestMap m"
proof (induction i m rule: Init_loop.induct)
  case (1 i m)
  show ?case
  proof (cases "i < NumWorkers (config m)")
    case True
    with 1 show ?thesis
      by (subst (1 2 3 4) Init_loop.simps) (simp add: spawn_def)
  next
    case False
    then show ?thesis
      by (subst (1 2 3 4) Init_loop.simps) simp
  qed
qed

lemma manager_fields:
  "replaySpecRepoFac (manager idle) j = memRepo"
  "uuidProvider (manager idle) = idsFrom 7"
  "requestQ (manager idle) = \<lparr>receivers = idle, closed = False, delivered = []\<rparr>"
  "requestMap (manager idle) = Map.empty"
  by (simp_all add: manager_def Let_def NewManager_def Init_def Init_loop_fields)

lemma closed_manager_fields:
  "replaySpecRepoFac (snd (Close (manager idle))) j = memRepo"
  "uuidProvider (snd (Close (manager idle))) = idsFrom 7"
  "requestQ (snd (Close (manager idle))) = \<lparr>receivers = 0, closed = True, delivered = []\<rparr>"
  by (simp_all add: Close_def manager_fields)

lemma NewUUID_idsFrom:
  "NewUUID (idsFrom n) = (Inr (of_nat n), (idsFrom n)\<lparr>calls := 1\<rparr>)"
  by (simp add: NewUUID_def idsFrom_def)

lemma validate_conflict_example:
  "validate dailyTree (replaySpecRepoFac (manager 1) (Job (request ''x'' 3 4)))
     (store [accepted 5 ''x'' 2 3]) (request ''x'' 3 4) = Some ConflictMsg"
  apply (simp add: manager_fields)
  apply (simp add: validate_def dailyTree_def request_def job_def)
  apply (simp add: memRepo_def store_def accepted_def statusToValidate_def)
  apply (simp add: activeReplayWorkerRequest_def GetName_def job_def
        checkAnyConflictedRuns_def sint_ext_day day_eq_iff)
  done

lemma validate_empty_store_example:
  "validate dailyTree memRepo (store []) (request ''x'' 2 3) = None"
  by (simp add: validate_def dailyTree_def request_def job_def memRepo_def store_def
      statusToValidate_def)

lemma validate_ignores_faulty_insert_example:
  "validate dailyTree memRepo ((store [])\<lparr>insertFault := Some (Err ''db down'')\<rparr>)
     (request ''x'' 2 3) = None"
  by (simp add: validate_def dailyTree_def request_def job_def memRepo_def store_def
      statusToValidate_def)

lemma validate_on_manager_example:
  "validate dailyTree (replaySpecRepoFac (manager idle) (Job (request ''x'' 2 3))) (store [])
     (request ''x'' 2 3) = None"
  "validate dailyTree (replaySpecRepoFac (manager idle) (Job (request ''x'' 2 3)))
     ((store [])\<lparr>insertFault := Some (Err ''db down'')\<rparr>) (request ''x'' 2 3) = None"
  by (simp_all add: manager_fields validate_empty_store_example
      validate_ignores_faulty_insert_example)

lemma NewUUID_on_manager_example:
  "NewUUID (uuidProvider (manager idle)) = (Inr 7, (idsFrom 7)\<lparr>calls := 1\<rparr>)"
  using NewUUID_idsFrom [of 7] by (simp add: manager_fields)

lemma Insert_memRepo_example:
  "Insert memRepo (store [])
     \<lparr>spec_ID = 7, spec_Job = Job (request ''x'' 2 3), StartDate = Start (request ''x'' 2 3),
      EndDate = End (request ''x'' 2 3), Status = ReplayStatusAccepted\<rparr> =
   (None, store [accepted 7 ''x'' 2 3])"
  "Insert memRepo
     ((store [])\<lparr>insertFault := Some (Err ''db down'')\<rparr>)
     \<lparr>spec_ID = 7, spec_Job = Job (request ''x'' 2 3), StartDate = Start (request ''x'' 2 3),
      EndDate = End (request ''x'' 2 3), Status = ReplayStatusAccepted\<rparr> =
   (Some (Err ''db down''), (store [])\<lparr>insertFault := Some (Err ''db down'')\<rparr>)"
  by (simp_all add: memRepo_def store_def accepted_def request_def)

text \<open>\<open>Replay\<close> once validation has passed and an id was generated: lines 71 to 98.\<close>

lemma Replay_after_id:
  assumes "validate T (replaySpecRepoFac m (Job reqInput)) db reqInput = None"
    and "NewUUID (uuidProvider m) = (Inr uuidOb, p)"
  shows "Replay T m db reqInput =
     (case Insert (replaySpecRepoFac m (Job reqInput)) db
             \<lparr>spec_ID = uuidOb, spec_Job = Job reqInput, StartDate = Start reqInput,
              EndDate = End reqInput, Status = ReplayStatusAccepted\<rparr> of
        (Some err, db1) \<Rightarrow>
          (Returns (Inl err), m\<lparr>uuidProvider := p\<rparr>, db1, reqInput\<lparr>ID := uuidOb\<rparr>)
      | (None, db1) \<Rightarrow>
          (case trySend (requestQ m) (reqInput\<lparr>ID := uuidOb\<rparr>) of
             Sent q \<Rightarrow>
               (Returns (Inr (uuid_String uuidOb)),
                m\<lparr>uuidProvider := p, requestQ := q,
                  requestMap := (requestMap m)(uuidOb \<mapsto> True)\<rparr>,
                db1, reqInput\<lparr>ID := uuidOb\<rparr>)
           | WouldBlock \<Rightarrow>
               (Returns (Inl ErrRequestQueueFull), m\<lparr>uuidProvider := p\<rparr>, db1,
                reqInput\<lparr>ID := uuidOb\<rparr>)
           | SendOnClosedChannel \<Rightarrow>
               (Panics, m\<lparr>uuidProvider := p\<rparr>, db1, reqInput\<lparr>ID := uuidOb\<rparr>)))"
  using assms
  by (simp add: Replay_def Let_def split: prod.splits option.splits send_result.splits)

lemma Replay_on_closed_queue:
  assumes "validate T (replaySpecRepoFac m (Job reqInput)) db reqInput = None"
    and "NewUUID (uuidProvider m) = (Inr uuidOb, p)"
    and "Insert (replaySpecRepoFac m (Job reqInput)) db
           \<lparr>spec_ID = uuidOb, spec_Job = Job reqInput, StartDate = Start reqInput,
            EndDate = End reqInput, Status = ReplayStatusAccepted\<rparr> = (None, db1)"
    and "closed (requestQ m)"
  shows "Replay T m db reqInput =
           (Panics, m\<lparr>uuidProvider := p\<rparr>, db1, reqInput\<lparr>ID := uuidOb\<rparr>)"
  unfolding Replay_after_id [OF assms(1,2)]
  using assms(3,4) by (simp add: trySend_def)

subsection \<open>Validation comes first\<close>

text \<open>
  Claim C2.  \<open>Replay\<close> validates before any side effect: when the validator returns an
  error, \<open>Replay\<close> returns that error and leaves the manager (queue, tracking map, id
  provider), the store and the request as they were; and whenever \<open>Replay\<close> leaves a
  store other than the one it found, the validator had returned no error.
\<close>

theorem Replay_validation_error_no_side_effect:
  "(validate T (replaySpecRepoFac m (Job reqInput)) db reqInput = Some err \<longrightarrow>
      Replay T m db reqInput = (Returns (Inl err), m, db, reqInput)) \<and>
   (fst (snd (snd (Replay T m db reqInput))) \<noteq> db \<longrightarrow>
      validate T (replaySpecRepoFac m (Job reqInput)) db reqInput = None)"
  by (cases "validate T (replaySpecRepoFac m (Job reqInput)) db reqInput")
     (simp_all add: Replay_def)

theorem Replay_validation_error_no_side_effect_witness:
  "Replay dailyTree (manager 1) (store [accepted 5 ''x'' 2 3]) (request ''x'' 3 4) =
     (Returns (Inl ConflictMsg), manager 1, store [accepted 5 ''x'' 2 3], request ''x'' 3 4)"
  by (rule Replay_validation_error_no_side_effect
        [THEN conjunct1, THEN mp, OF validate_conflict_example])

subsection \<open>The inserted record\<close>

text \<open>
  Claim C4.  After validation and id generation, the store \<open>Replay\<close> leaves is the one
  left by one \<open>Insert\<close> of the record whose id is the generated id, with the request's
  job, start date and end date and the status Accepted, and the request carries that
  id; when this insert fails, \<open>Replay\<close> returns the insert's error and the queue and the
  tracking map are untouched (nothing was sent).
\<close>

theorem Replay_inserts_accepted_record:
  assumes "validate T (replaySpecRepoFac m (Job reqInput)) db reqInput = None"
    and "NewUUID (uuidProvider m) = (Inr uuidOb, p)"
  shows "fst (snd (snd (Replay T m db reqInput))) =
           snd (Insert (replaySpecRepoFac m (Job reqInput)) db
                  \<lparr>spec_ID = uuidOb, spec_Job = Job reqInput, StartDate = Start reqInput,
                   EndDate = End reqInput, Status = ReplayStatusAccepted\<rparr>) \<and>
         ID (snd (snd (snd (Replay T m db reqInput)))) = uuidOb \<and>
         (fst (Insert (replaySpecRepoFac m (Job reqInput)) db
                  \<lparr>spec_ID = uuidOb, spec_Job = Job reqInput, StartDate = Start reqInput,
                   EndDate = End reqInput, Status = ReplayStatusAccepted\<rparr>) = Some err \<longrightarrow>
            fst (Replay T m db reqInput) = Returns (Inl err) \<and>
            requestQ (fst (snd (Replay T m db reqInput))) = requestQ m \<and>
            requestMap (fst (snd (Replay T m db reqInput))) = requestMap m)"
  unfolding Replay_after_id [OF assms]
  by (simp split: prod.splits option.splits send_result.splits)

theorem Replay_inserts_accepted_record_witness:
  "fst (snd (snd (Replay dailyTree (manager 1) (store []) (request ''x'' 2 3)))) =
     store [\<lparr>spec_ID = 7, spec_Job = job ''x'', StartDate = day 2, EndDate = day 3,
             Status = ReplayStatusAccepted\<rparr>] \<and>
   ID (snd (snd (snd (Replay dailyTree (manager 1) (store []) (request ''x'' 2 3))))) = 7 \<and>
   fst (Replay dailyTree (manager 1) ((store [])\<lparr>insertFault := Some (Err ''db down'')\<rparr>)
          (request ''x'' 2 3)) = Returns (Inl (Err ''db down'')) \<and>
   requestQ (fst (snd (Replay dailyTree (manager 1)
          ((store [])\<lparr>insertFault := Some (Err ''db down'')\<rparr>) (request ''x'' 2 3)))) =
     \<lparr>receivers = 1, closed = False, delivered = []\<rparr>"
  using
    Replay_inserts_accepted_record
      [OF validate_on_manager_example(1) [of 1] NewUUID_on_manager_example [of 1]]
    Replay_inserts_accepted_record
      [OF validate_on_manager_example(2) [of 1] NewUUID_on_manager_example [of 1],
       where err = "Err ''db down''"]
  by (simp add: manager_fields Insert_memRepo_example accepted_def)

subsection \<open>A full queue\<close>

text \<open>
  Claim C3, as stated, fails on a manager whose queue was closed by \<open>Close\<close>: no
  worker is waiting there, the record is inserted, and the send panics instead of
  \<open>ErrRequestQueueFull\<close> being returned.
\<close>

theorem Replay_after_Close_panics:
  "receivers (requestQ (snd (Close (manager 0)))) = 0 \<and>
   fst (Replay dailyTree (snd (Close (manager 0))) (store []) (request ''x'' 2 3)) = Panics \<and>
   fst (Replay dailyTree (snd (Close (manager 0))) (store []) (request ''x'' 2 3)) \<noteq>
     Returns (Inl ErrRequestQueueFull) \<and>
   fst (snd (snd (Replay dailyTree (snd (Close (manager 0))) (store []) (request ''x'' 2 3)))) =
     store [accepted 7 ''x'' 2 3]"
proof -
  have v: "validate dailyTree
      (replaySpecRepoFac (snd (Close (manager 0))) (Job (request ''x'' 2 3))) (store [])
      (request ''x'' 2 3) = None"
    by (simp add: closed_manager_fields validate_empty_store_example)
  have u: "NewUUID (uuidProvider (snd (Close (manager 0)))) = (Inr 7, (idsFrom 7)\<lparr>calls := 1\<rparr>)"
    using NewUUID_idsFrom [of 7] by (simp add: closed_manager_fields)
  have i: "Insert (replaySpecRepoFac (snd (Close (manager 0))) (Job (request ''x'' 2 3)))
      (store [])
      \<lparr>spec_ID = 7, spec_Job = Job (request ''x'' 2 3), StartDate = Start (request ''x'' 2 3),
       EndDate = End (request ''x'' 2 3), Status = ReplayStatusAccepted\<rparr> =
      (None, store [accepted 7 ''x'' 2 3])"
    by (simp add: closed_manager_fields memRepo_def store_def accepted_def request_def)
  have c: "closed (requestQ (snd (Close (manager 0))))"
    by (simp add: closed_manager_fields)
  show ?thesis
    by (simp add: Replay_on_closed_queue [OF v u i c] closed_manager_fields)
qed

text \<open>
  Claim C3, amended.  If the queue has not been closed and no worker is waiting to
  receive at the instant of the non-blocking send, \<open>Replay\<close> returns
  \<open>ErrRequestQueueFull\<close>; the store is the one the successful insert of the Accepted
  record left (nothing is rolled back), and the manager differs from the one before
  the call in its id provider only: the request is not in the tracking map.
\<close>

theorem Replay_queue_full_keeps_record:
  assumes "validate T (replaySpecRepoFac m (Job reqInput)) db reqInput = None"
    and "NewUUID (uuidProvider m) = (Inr uuidOb, p)"
    and "Insert (replaySpecRepoFac m (Job reqInput)) db
           \<lparr>spec_ID = uuidOb, spec_Job = Job reqInput, StartDate = Start reqInput,
            EndDate = End reqInput, Status = ReplayStatusAccepted\<rparr> = (None, db1)"
    and "\<not> closed (requestQ m)"
    and "receivers (requestQ m) = 0"
  shows "Replay T m db reqInput =
           (Returns (Inl ErrRequestQueueFull), m\<lparr>uuidProvider := p\<rparr>, db1,
            reqInput\<lparr>ID := uuidOb\<rparr>)"
  unfolding Replay_after_id [OF assms(1,2)]
  using assms(3-5) by (simp add: trySend_def)

theorem Replay_queue_full_keeps_record_witness:
  "Replay dailyTree (manager 0) (store []) (request ''x'' 2 3) =
     (Returns (Inl ErrRequestQueueFull), (manager 0)\<lparr>uuidProvider := (idsFrom 7)\<lparr>calls := 1\<rparr>\<rparr>,
      store [accepted 7 ''x'' 2 3], (request ''x'' 2 3)\<lparr>ID := 7\<rparr>)"
  by (rule Replay_queue_full_keeps_record
        [OF validate_on_manager_example(1) NewUUID_on_manager_example
            Insert_memRepo_example(1) [folded manager_fields(1) [of 0 "Job (request ''x'' 2 3)"]]])
     (simp_all add: manager_fields)

subsection \<open>The request's id\<close>

text \<open>
  Claim C9, as stated, fails: after a failed insert, and after \<open>ErrRequestQueueFull\<close>,
  the request that was passed with an unset id carries the generated id.
\<close>

theorem Replay_error_leaves_id_set:
  "ID (request ''x'' 2 3) = uuid_Nil \<and> (7 :: uuid) \<noteq> uuid_Nil \<and>
   fst (Replay dailyTree (manager 1) ((store [])\<lparr>insertFault := Some (Err ''db down'')\<rparr>)
          (request ''x'' 2 3)) = Returns (Inl (Err ''db down'')) \<and>
   ID (snd (snd (snd (Replay dailyTree (manager 1)
          ((store [])\<lparr>insertFault := Some (Err ''db down'')\<rparr>) (request ''x'' 2 3))))) = 7 \<and>
   fst (Replay dailyTree (manager 0) (store []) (request ''x'' 2 3)) =
     Returns (Inl ErrRequestQueueFull) \<and>
   ID (snd (snd (snd (Replay dailyTree (manager 0) (store []) (request ''x'' 2 3))))) = 7"
proof -
  have "ID (request ''x'' 2 3) = uuid_Nil" "(7 :: uuid) \<noteq> uuid_Nil"
    by (simp_all add: request_def uuid_Nil_def)
  moreover have "Replay dailyTree (manager 1)
        ((store [])\<lparr>insertFault := Some (Err ''db down'')\<rparr>) (request ''x'' 2 3) =
      (Returns (Inl (Err ''db down'')), (manager 1)\<lparr>uuidProvider := (idsFrom 7)\<lparr>calls := 1\<rparr>\<rparr>,
       (store [])\<lparr>insertFault := Some (Err ''db down'')\<rparr>, (request ''x'' 2 3)\<lparr>ID := 7\<rparr>)"
    by (simp add: Replay_after_id [OF validate_on_manager_example(2) NewUUID_on_manager_example]
        manager_fields Insert_memRepo_example)
  moreover have "Replay dailyTree (manager 0) (store []) (request ''x'' 2 3) =
      (Returns (Inl ErrRequestQueueFull), (manager 0)\<lparr>uuidProvider := (idsFrom 7)\<lparr>calls := 1\<rparr>\<rparr>,
       store [accepted 7 ''x'' 2 3], (request ''x'' 2 3)\<lparr>ID := 7\<rparr>)"
    by (simp add: Replay_after_id [OF validate_on_manager_example(1) NewUUID_on_manager_example]
        manager_fields Insert_memRepo_example trySend_def)
  ultimately show ?thesis by simp
qed

text \<open>
  Claim C9, amended.  \<open>Replay\<close> leaves the request untouched when it returns a validation
  error or an id-generation error; once an id has been generated, the request leaves
  \<open>Replay\<close> with its id set to that id and nothing else changed, whatever follows (a
  failed insert, a full queue, success) and whatever its id was before.
\<close>

theorem Replay_id_assigned_before_insert:
  "(validate T (replaySpecRepoFac m (Job reqInput)) db reqInput = Some err \<longrightarrow>
      snd (snd (snd (Replay T m db reqInput))) = reqInput) \<and>
   (validate T (replaySpecRepoFac m (Job reqInput)) db reqInput = None \<and>
    fst (NewUUID (uuidProvider m)) = Inl err \<longrightarrow>
      snd (snd (snd (Replay T m db reqInput))) = reqInput) \<and>
   (validate T (replaySpecRepoFac m (Job reqInput)) db reqInput = None \<and>
    fst (NewUUID (uuidProvider m)) = Inr uuidOb \<longrightarrow>
      snd (snd (snd (Replay T m db reqInput))) = reqInput\<lparr>ID := uuidOb\<rparr>)"
  by (simp add: Replay_def Let_def split: prod.splits option.splits sum.splits send_result.splits)

theorem Replay_id_assigned_before_insert_witness:
  "snd (snd (snd (Replay dailyTree (manager 1) (store [accepted 5 ''x'' 2 3])
      (request ''x'' 3 4)))) = request ''x'' 3 4 \<and>
   snd (snd (snd (Replay dailyTree ((manager 1)\<lparr>uuidProvider := noIds\<rparr>) (store [])
      (request ''x'' 2 3)))) = request ''x'' 2 3 \<and>
   snd (snd (snd (Replay dailyTree (manager 1) (store []) (request ''x'' 2 3)))) =
      (request ''x'' 2 3)\<lparr>ID := 7\<rparr>"
proof -
  have v: "validate dailyTree
      (replaySpecRepoFac ((manager 1)\<lparr>uuidProvider := noIds\<rparr>) (Job (request ''x'' 2 3)))
      (store []) (request ''x'' 2 3) = None"
    by (simp add: manager_fields validate_empty_store_example)
  have n: "fst (NewUUID (uuidProvider ((manager 1)\<lparr>uuidProvider := noIds\<rparr>))) =
      Inl (Err ''no entropy'')"
    by (simp add: NewUUID_def noIds_def)
  have u: "fst (NewUUID (uuidProvider (manager 1))) = Inr 7"
    by (simp add: NewUUID_on_manager_example)
  show ?thesis
    using
      Replay_id_assigned_before_insert
        [of dailyTree "manager 1" "request ''x'' 3 4" "store [accepted 5 ''x'' 2 3]"
            ConflictMsg 0, THEN conjunct1, THEN mp, OF validate_conflict_example]
      Replay_id_assigned_before_insert
        [of dailyTree "(manager 1)\<lparr>uuidProvider := noIds\<rparr>" "request ''x'' 2 3" "store []"
            "Err ''no entropy''" 0, THEN conjunct2, THEN conjunct1, THEN mp, OF conjI, OF v n]
      Replay_id_assigned_before_insert
        [of dailyTree "manager 1" "request ''x'' 2 3" "store []"
            undefined 7, THEN conjunct2, THEN conjunct2, THEN mp, OF conjI,
         OF validate_on_manager_example(1) u]
    by (intro conjI)
qed

subsection \<open>The validator against its specification\<close>

text \<open>What the validator reports is an overlap: it never reports a conflict where there is none.\<close>

lemma dags_inner_sound:
  "dags_inner a rs = Some (Some e) \<Longrightarrow> list_ex (nodes_overlap a) rs"
  by (induction rs)
     (auto simp: nodes_overlap_def checkAnyConflictedRuns_def runs_outer_inter
           split: if_splits)

lemma checkAnyConflictedDags_sound:
  "checkAnyConflictedDags activeNodes reqReplayNodes = Some e \<Longrightarrow>
     list_ex (\<lambda>a. list_ex (nodes_overlap a) reqReplayNodes) activeNodes"
  by (induction activeNodes) (auto split: option.splits dest: dags_inner_sound)

text \<open>
  Claim C1.  The code misses overlaps that the claim says are reported.  With two active
  records of which the second is for the requested job and dates, \<open>validate\<close> looks at
  the first record only and returns no error; and \<open>checkAnyConflictedDags\<close> lets the
  first pair of equal names decide, so an overlap on a later pair is not reported.
\<close>

theorem validate_misses_overlaps:
  "validate dailyTree memRepo (store [accepted 1 ''a'' 2 3, accepted 2 ''x'' 2 3])
     (request ''x'' 2 3) = None \<and>
   spec_conflict dailyTree [accepted 1 ''a'' 2 3, accepted 2 ''x'' 2 3] (request ''x'' 2 3)
     [\<lparr>Data = job ''x'', Runs = [day 2, day 3]\<rparr>] \<and>
   checkAnyConflictedDags
     [\<lparr>Data = job ''x'', Runs = [day 1]\<rparr>, \<lparr>Data = job ''y'', Runs = [day 2]\<rparr>]
     [\<lparr>Data = job ''x'', Runs = [day 3]\<rparr>, \<lparr>Data = job ''y'', Runs = [day 2]\<rparr>] = None \<and>
   nodes_overlap \<lparr>Data = job ''y'', Runs = [day 2]\<rparr> \<lparr>Data = job ''y'', Runs = [day 2]\<rparr>"
proof (intro conjI)
  show "validate dailyTree memRepo (store [accepted 1 ''a'' 2 3, accepted 2 ''x'' 2 3])
     (request ''x'' 2 3) = None"
    apply (simp add: validate_def dailyTree_def request_def job_def)
    apply (simp add: memRepo_def store_def accepted_def statusToValidate_def)
    apply (simp add: activeReplayWorkerRequest_def GetName_def job_def)
    done
  show "spec_conflict dailyTree [accepted 1 ''a'' 2 3, accepted 2 ''x'' 2 3] (request ''x'' 2 3)
     [\<lparr>Data = job ''x'', Runs = [day 2, day 3]\<rparr>]"
    by (simp add: spec_conflict_def dailyTree_def accepted_def request_def job_def
        activeReplayWorkerRequest_def nodes_overlap_def GetName_def sint_ext_day)
  show "checkAnyConflictedDags
     [\<lparr>Data = job ''x'', Runs = [day 1]\<rparr>, \<lparr>Data = job ''y'', Runs = [day 2]\<rparr>]
     [\<lparr>Data = job ''x'', Runs = [day 3]\<rparr>, \<lparr>Data = job ''y'', Runs = [day 2]\<rparr>] = None"
    by (simp add: GetName_def job_def checkAnyConflictedRuns_def day_eq_iff)
  show "nodes_overlap \<lparr>Data = job ''y'', Runs = [day 2]\<rparr> \<lparr>Data = job ''y'', Runs = [day 2]\<rparr>"
    by (simp add: nodes_overlap_def)
qed

end
